theory Spec2Isabelle
  imports Complex_Main "HOL-Library.Sublist"
begin

section \<open>Client data model (src/src/App.tsx)\<close>

text \<open>
  The interfaces \<^verbatim>\<open>Product\<close> and \<^verbatim>\<open>CartItem extends Product\<close> become a record and its
  extension. Identifiers and quantities are integers. A price is a double, held as the real
  number it denotes; sums and products of prices are rounded as JavaScript rounds them (see
  \<open>to_double\<close> below). The fields \<^verbatim>\<open>id\<close> and \<^verbatim>\<open>image\<close> carry a prime, since both names
  are constants of HOL.
\<close>

record Product =
  id' :: int
  name :: string
  category :: string
  price :: real
  image' :: string
  stock :: int
  description :: string

record CartItem = Product +
  quantity :: int

subsection \<open>Cart mutation: addToCart and removeFromCart\<close>

text \<open>
  Both functions are the updater passed to \<^verbatim>\<open>setCart(prev => ...)\<close>: they take the previous
  cart and return the next one. \<^verbatim>\<open>prev.find\<close> is \<^const>\<open>find\<close>, and an object is truthy, so
  \<^verbatim>\<open>if (existing)\<close> asks whether \<^const>\<open>find\<close> returned a line. The spread
  \<^verbatim>\<open>{ ...item, quantity: q }\<close> is a record update, and \<^verbatim>\<open>{ ...product, quantity: 1 }\<close>
  copies the seven product fields and sets the quantity.
\<close>

definition addToCart :: "'a Product_scheme \<Rightarrow> CartItem list \<Rightarrow> CartItem list" where
  "addToCart product prev =
     (case find (\<lambda>item. id' item = id' product) prev of
        Some existing \<Rightarrow>
          map (\<lambda>item. if id' item = id' product
                      then item\<lparr>quantity := quantity item + 1\<rparr> else item) prev
      | None \<Rightarrow>
          prev @ [\<lparr>id' = id' product, name = name product, category = category product,
                   price = price product, image' = image' product, stock = stock product,
                   description = description product, quantity = 1\<rparr>])"

definition removeFromCart :: "int \<Rightarrow> CartItem list \<Rightarrow> CartItem list" where
  "removeFromCart productId prev =
     (case find (\<lambda>item. id' item = productId) prev of
        Some existing \<Rightarrow>
          if quantity existing > 1
          then map (\<lambda>item. if id' item = productId
                           then item\<lparr>quantity := quantity item - 1\<rparr> else item) prev
          else filter (\<lambda>item. id' item \<noteq> productId) prev
      | None \<Rightarrow> filter (\<lambda>item. id' item \<noteq> productId) prev)"

subsection \<open>Arithmetic on doubles\<close>

text \<open>
  A JavaScript number is an IEEE 754 binary64 value, and the result of \<^verbatim>\<open>+\<close> or \<^verbatim>\<open>*\<close> is the
  exact result rounded to the nearest double, a tie going to the double with an even
  significand. A double with exponent \<open>e\<close> is a multiple of \<open>2 powi (e - 52)\<close>; the exponent
  of a normal number lies between -1022 and 1023, and smaller numbers use the exponent -1022.
  \<open>exponent x\<close> is the largest exponent in that range whose power of two does not exceed
  \<open>\<bar>x\<bar>\<close>. Results beyond the largest double, which JavaScript turns into \<^verbatim>\<open>Infinity\<close>,
  have no counterpart here.
\<close>

definition exponents :: "int list" where
  "exponents = rev [- 1022 .. 1023]"

definition exponent :: "real \<Rightarrow> int" where
  "exponent x =
     (case find (\<lambda>e. 2 powi e \<le> \<bar>x\<bar>) exponents of
        Some e \<Rightarrow> e
      | None \<Rightarrow> - 1022)"

definition round_half_even :: "real \<Rightarrow> int" where
  "round_half_even m =
     (let f = \<lfloor>m\<rfloor>; d = m - of_int f
      in if d < 1 / 2 then f else if 1 / 2 < d then f + 1 else if even f then f else f + 1)"

definition to_double :: "real \<Rightarrow> real" where
  "to_double x =
     of_int (round_half_even (x / 2 powi (exponent x - 52))) * 2 powi (exponent x - 52)"

subsection \<open>Derived values: cartTotal and cartCount\<close>

text \<open>
  \<^verbatim>\<open>cart.reduce(f, 0)\<close> folds from the left, starting at 0. In
  \<^verbatim>\<open>sum + item.price * item.quantity\<close> the product is rounded, then the sum.
\<close>

definition cartTotal :: "CartItem list \<Rightarrow> real" where
  "cartTotal cart =
     foldl (\<lambda>sum item.
              to_double (sum + to_double (price item * real_of_int (quantity item)))) 0 cart"

definition cartCount :: "CartItem list \<Rightarrow> int" where
  "cartCount cart = foldl (\<lambda>sum item. sum + quantity item) 0 cart"

subsection \<open>Sequences of cart operations\<close>

text \<open>
  A user session is a list of clicks, each of which calls \<^verbatim>\<open>addToCart(product)\<close> or
  \<^verbatim>\<open>removeFromCart(productId)\<close>. The cart starts as \<^verbatim>\<open>useState<CartItem[]>([])\<close>.
\<close>

datatype cart_op = AddLine Product | RemoveLine int

fun apply_op :: "CartItem list \<Rightarrow> cart_op \<Rightarrow> CartItem list" where
  "apply_op cart (AddLine product) = addToCart product cart"
| "apply_op cart (RemoveLine productId) = removeFromCart productId cart"

definition run_ops :: "cart_op list \<Rightarrow> CartItem list" where
  "run_ops ops = foldl apply_op [] ops"

text \<open>The invariant of the cart: product ids are pairwise different, quantities are positive.\<close>

definition cart_inv :: "CartItem list \<Rightarrow> bool" where
  "cart_inv cart = (distinct (map id' cart) \<and> (\<forall>l \<in> set cart. 1 \<le> quantity l))"

subsection \<open>Product discovery: filteredProducts\<close>

text \<open>
  \<^verbatim>\<open>s.includes(t)\<close> searches \<^verbatim>\<open>t\<close> at every position of \<^verbatim>\<open>s\<close>. A string is the list of its
  code units. The name carries a prime, \<^verbatim>\<open>includes\<close> being a keyword.
\<close>

fun starts_with :: "string \<Rightarrow> string \<Rightarrow> bool" where
  "starts_with s [] = True"
| "starts_with [] (d # t) = False"
| "starts_with (c # s) (d # t) = (c = d \<and> starts_with s t)"

fun includes' :: "string \<Rightarrow> string \<Rightarrow> bool" where
  "includes' [] t = (t = [])"
| "includes' (c # s) t = (starts_with (c # s) t \<or> includes' s t)"

text \<open>
  \<^verbatim>\<open>String.prototype.toLowerCase\<close>. A string of this model has code units below 256, one
  \<^typ>\<open>char\<close> each: the Basic Latin and Latin-1 blocks of Unicode. There the built-in maps
  each code unit by itself: the upper-case letters are A to Z (65 to 90) and U+00C0 to U+00DE
  (192 to 222) without the multiplication sign U+00D7 (215), the lower-case form of each is
  32 above it, and every other code unit stays. Setting the bit of value 32 adds 32.
\<close>

definition is_upper :: "char \<Rightarrow> bool" where
  "is_upper c =
     (let n = (of_char c :: nat)
      in (65 \<le> n \<and> n \<le> 90) \<or> (192 \<le> n \<and> n \<le> 222 \<and> n \<noteq> 215))"

definition lower_char :: "char \<Rightarrow> char" where
  "lower_char c =
     (if is_upper c
      then (case c of Char b0 b1 b2 b3 b4 b5 b6 b7 \<Rightarrow> Char b0 b1 b2 b3 b4 True b6 b7)
      else c)"

definition toLowerCase :: "string \<Rightarrow> string" where
  "toLowerCase s = map lower_char s"





subsection \<open>Checkout: handlePlaceOrder\<close>

text \<open>
  \<^verbatim>\<open>interface UserData { id; email; name }\<close> and the JSON body of \<^verbatim>\<open>POST /api/orders\<close>.
  The field \<^verbatim>\<open>total\<close> carries a prime, the name being a constant of HOL.
\<close>

record UserData =
  uid :: int
  uemail :: string
  uname :: string

record order_body =
  userId :: int
  items :: "CartItem list"
  total' :: real

text \<open>
  \<^verbatim>\<open>await fetch(...)\<close> either rejects (the \<^verbatim>\<open>catch\<close> branch) or resolves to a response with
  an HTTP status; \<^verbatim>\<open>res.ok\<close> holds for the statuses 200 to 299.
\<close>

datatype fetch_result = Rejected | Response int

definition ok :: "int \<Rightarrow> bool" where
  "ok status = (200 \<le> status \<and> status \<le> 299)"

text \<open>
  What the handler can change: the cart held by \<^verbatim>\<open>App\<close>, the route set by
  \<^verbatim>\<open>navigate\<close>, the flag \<^verbatim>\<open>isPlacingOrder\<close>, and the requests handed to \<^verbatim>\<open>fetch\<close>,
  kept in the order they were issued.
\<close>

record checkout_world =
  cart :: "CartItem list"
  location :: string
  isPlacingOrder :: bool
  sent :: "order_body list"

text \<open>\<^verbatim>\<open>onOrderSuccess={() => setCart([])}\<close>, as \<^verbatim>\<open>App\<close> passes it to \<^verbatim>\<open>CheckoutPage\<close>.\<close>

definition onOrderSuccess :: "checkout_world \<Rightarrow> checkout_world" where
  "onOrderSuccess w = w\<lparr>cart := []\<rparr>"

text \<open>
  \<^verbatim>\<open>App\<close> renders \<^verbatim>\<open>CheckoutPage\<close> with the props \<^verbatim>\<open>cart={cart}\<close> and
  \<^verbatim>\<open>cartTotal={cartTotal}\<close>, so the handler sees the cart of the world and its total. The
  network is the parameter \<^verbatim>\<open>fetch\<close>. A missing user returns early; the \<^verbatim>\<open>catch\<close> branch
  only logs; the \<^verbatim>\<open>finally\<close> branch resets the flag on every path that entered \<^verbatim>\<open>try\<close>.
\<close>

definition handlePlaceOrder ::
    "(order_body \<Rightarrow> fetch_result) \<Rightarrow> UserData option \<Rightarrow> checkout_world \<Rightarrow> checkout_world" where
  "handlePlaceOrder fetch user w =
     (case user of
        None \<Rightarrow> w\<lparr>location := ''/auth''\<rparr>
      | Some u \<Rightarrow>
          let body = \<lparr>userId = uid u, items = cart w, total' = cartTotal (cart w) + 2\<rparr>;
              w1 = w\<lparr>isPlacingOrder := True, sent := sent w @ [body]\<rparr>;
              w2 = (case fetch body of
                      Response status \<Rightarrow>
                        if ok status then (onOrderSuccess w1)\<lparr>location := ''/success''\<rparr> else w1
                    | Rejected \<Rightarrow> w1)
          in w2\<lparr>isPlacingOrder := False\<rparr>)"

section \<open>Order service (src/server.ts)\<close>

subsection \<open>Request values and statement parameters\<close>

text \<open>
  The handlers destructure \<^verbatim>\<open>req.body\<close>, an untyped JSON object. The model covers bodies
  in which every property the handler reads is present and is \<^verbatim>\<open>null\<close>, a boolean, or a
  value of the type the client sends (a number or a string).

  The statements run through better-sqlite3, which binds numbers and strings, binds
  \<^verbatim>\<open>null\<close> as SQL NULL, and throws a \<^verbatim>\<open>TypeError\<close> for a boolean. A nullable column holds
  an \<^verbatim>\<open>option\<close>.
\<close>

datatype 'a field = Null | Bool bool | Val 'a

datatype js_error = TypeError string | SqliteError string

fun message :: "js_error \<Rightarrow> string" where
  "message (TypeError m) = m"
| "message (SqliteError m) = m"

fun bind_parameter :: "'a field \<Rightarrow> js_error + 'a option" where
  "bind_parameter Null = Inr None"
| "bind_parameter (Bool b) =
     Inl (TypeError ''SQLite3 can only bind numbers, strings, bigints, buffers, and null'')"
| "bind_parameter (Val v) = Inr (Some v)"

subsection \<open>Tables\<close>

text \<open>
  One record per table of the \<^verbatim>\<open>CREATE TABLE\<close> statements, each field named
  table_column. Every \<^verbatim>\<open>id\<close> is \<^verbatim>\<open>INTEGER PRIMARY KEY AUTOINCREMENT\<close>: a new row gets
  one more than the largest id the table has ever held, which SQLite keeps in
  \<^verbatim>\<open>sqlite_sequence\<close>. The table \<^verbatim>\<open>products\<close> is never written after it is seeded; its
  rows are the catalogue below.
\<close>

record users_row =
  users_id :: int
  users_email :: "string option"
  users_password :: "string option"
  users_name :: "string option"

record orders_row =
  orders_id :: int
  orders_user_id :: "int option"
  orders_total :: "real option"
  orders_status :: "string option"
  orders_created_at :: nat

record order_items_row =
  order_items_id :: int
  order_items_order_id :: "int option"
  order_items_product_id :: "int option"
  order_items_quantity :: "int option"
  order_items_price :: "real option"

record database =
  users :: "users_row list"
  orders :: "orders_row list"
  order_items :: "order_items_row list"
  seq_users :: int
  seq_orders :: int
  seq_order_items :: int

definition empty_database :: database where
  "empty_database = \<lparr>users = [], orders = [], order_items = [],
     seq_users = 0, seq_orders = 0, seq_order_items = 0\<rparr>"

definition next_rowid :: "int \<Rightarrow> int list \<Rightarrow> int" where
  "next_rowid seq ids = foldl max seq ids + 1"

subsection \<open>The product catalogue\<close>

text \<open>
  When the table \<^verbatim>\<open>products\<close> is empty, \<^verbatim>\<open>server.ts\<close> fills it with the eight rows of
  \<^verbatim>\<open>seedProducts\<close>, which get the ids 1 to 8 in this order. No handler inserts, updates or
  deletes a product, so these rows are what \<^verbatim>\<open>GET /api/products\<close> returns and what the
  client can pass to \<^verbatim>\<open>addToCart\<close>.
\<close>

definition milk :: Product where
  "milk = \<lparr>id' = 1, name = ''Amul Gold Milk'', category = ''Dairy'', price = 33,
     image' = ''https://picsum.photos/seed/milk/400/400'', stock = 100,
     description = ''Fresh full cream milk''\<rparr>"

definition bread :: Product where
  "bread = \<lparr>id' = 2, name = ''Harvest Gold Bread'', category = ''Bakery'', price = 45,
     image' = ''https://picsum.photos/seed/bread/400/400'', stock = 50,
     description = ''Whole wheat brown bread''\<rparr>"









subsection \<open>POST /api/orders\<close>

text \<open>
  \<^verbatim>\<open>INSERT INTO orders (user_id, total) VALUES (?, ?)\<close>: \<^verbatim>\<open>status\<close> takes its default
  \<^verbatim>\<open>'pending'\<close> and \<^verbatim>\<open>created_at\<close> the current time, a parameter here. The result is
  \<^verbatim>\<open>info.lastInsertRowid\<close> and the new database. A statement that throws changes nothing.
\<close>

definition insert_order ::
    "nat \<Rightarrow> int field \<Rightarrow> real field \<Rightarrow> database \<Rightarrow> js_error + (int \<times> database)" where
  "insert_order now user_id total_amount db =
     (case bind_parameter user_id of
        Inl e \<Rightarrow> Inl e
      | Inr u \<Rightarrow>
          (case bind_parameter total_amount of
             Inl e \<Rightarrow> Inl e
           | Inr t \<Rightarrow>
               let rowid = next_rowid (seq_orders db) (map orders_id (orders db))
               in Inr (rowid,
                    db\<lparr>orders := orders db @
                         [\<lparr>orders_id = rowid, orders_user_id = u, orders_total = t,
                           orders_status = Some ''pending'', orders_created_at = now\<rparr>],
                       seq_orders := rowid\<rparr>)))"

text \<open>An element of \<^verbatim>\<open>items\<close>; the handler reads these three properties of it.\<close>

record order_item_json =
  item_id :: "int field"
  item_quantity :: "int field"
  item_price :: "real field"

text \<open>
  \<^verbatim>\<open>INSERT INTO order_items (order_id, product_id, quantity, price) VALUES (?, ?, ?, ?)\<close>
  run with \<^verbatim>\<open>(orderId, item.id, item.quantity, item.price)\<close>.
\<close>

definition insert_item :: "int \<Rightarrow> order_item_json \<Rightarrow> database \<Rightarrow> js_error + database" where
  "insert_item orderId item db =
     (case bind_parameter (item_id item) of
        Inl e \<Rightarrow> Inl e
      | Inr p \<Rightarrow>
          (case bind_parameter (item_quantity item) of
             Inl e \<Rightarrow> Inl e
           | Inr q \<Rightarrow>
               (case bind_parameter (item_price item) of
                  Inl e \<Rightarrow> Inl e
                | Inr pr \<Rightarrow>
                    let rowid = next_rowid (seq_order_items db) (map order_items_id (order_items db))
                    in Inr (db\<lparr>order_items := order_items db @
                                 [\<lparr>order_items_id = rowid, order_items_order_id = Some orderId,
                                   order_items_product_id = p, order_items_quantity = q,
                                   order_items_price = pr\<rparr>],
                               seq_order_items := rowid\<rparr>))))"

text \<open>An item all of whose three properties can be bound.\<close>

fun is_bool :: "'a field \<Rightarrow> bool" where
  "is_bool (Bool b) = True"
| "is_bool Null = False"
| "is_bool (Val v) = False"

definition bindable :: "order_item_json \<Rightarrow> bool" where
  "bindable item = (\<not> is_bool (item_id item) \<and> \<not> is_bool (item_quantity item) \<and>
                    \<not> is_bool (item_price item))"

text \<open>
  \<^verbatim>\<open>items.forEach(item => insertItem.run(...))\<close>. An element of the array is an object or
  \<^verbatim>\<open>null\<close>, here \<^const>\<open>None\<close>; reading \<^verbatim>\<open>item.id\<close> of \<^verbatim>\<open>null\<close> throws. Every statement
  commits on its own, so an exception leaves the rows inserted before it; the database at that
  moment is returned with the error.
\<close>

fun forEach_insertItem ::
    "int \<Rightarrow> order_item_json option list \<Rightarrow> database \<Rightarrow> database \<times> js_error option" where
  "forEach_insertItem orderId [] db = (db, None)"
| "forEach_insertItem orderId (None # rest) db =
     (db, Some (TypeError ''Cannot read properties of null''))"
| "forEach_insertItem orderId (Some item # rest) db =
     (case insert_item orderId item db of
        Inl e \<Rightarrow> (db, Some e)
      | Inr db' \<Rightarrow> forEach_insertItem orderId rest db')"

text \<open>The body of the request; \<^verbatim>\<open>items\<close> is an array or \<^verbatim>\<open>null\<close>.\<close>

record orders_request =
  body_userId :: "int field"
  body_items :: "order_item_json option list option"
  body_total :: "real field"

text \<open>\<^verbatim>\<open>userId || 1\<close>: \<^verbatim>\<open>null\<close>, \<^verbatim>\<open>false\<close> and 0 are falsy.\<close>

fun or_1 :: "int field \<Rightarrow> int field" where
  "or_1 (Val v) = (if v = 0 then Val 1 else Val v)"
| "or_1 Null = Val 1"
| "or_1 (Bool b) = (if b then Bool True else Val 1)"

text \<open>
  The handler answers \<^verbatim>\<open>{ success: true, orderId }\<close>; an exception that escapes it reaches
  the default error handler of Express, which answers with status 500.
\<close>

datatype orders_response = OrderCreated int | Uncaught js_error

definition post_orders :: "nat \<Rightarrow> orders_request \<Rightarrow> database \<Rightarrow> database \<times> orders_response" where
  "post_orders now body db =
     (case insert_order now (or_1 (body_userId body)) (body_total body) db of
        Inl e \<Rightarrow> (db, Uncaught e)
      | Inr (orderId, db1) \<Rightarrow>
          (case body_items body of
             Some its \<Rightarrow>
               (case forEach_insertItem orderId its db1 of
                  (db2, Some e) \<Rightarrow> (db2, Uncaught e)
                | (db2, None) \<Rightarrow> (db2, OrderCreated orderId))
           | None \<Rightarrow> (db1, Uncaught (TypeError ''Cannot read properties of null''))))"

subsection \<open>POST /api/register\<close>

text \<open>
  \<^verbatim>\<open>INSERT INTO users (email, password, name) VALUES (?, ?, ?)\<close>. The column
  \<^verbatim>\<open>email TEXT UNIQUE\<close> rejects a value that a row already holds; NULL is exempt, as in
  SQL.
\<close>

definition insert_user ::
    "string field \<Rightarrow> string field \<Rightarrow> string field \<Rightarrow> database \<Rightarrow> js_error + (int \<times> database)" where
  "insert_user email password nm db =
     (case bind_parameter email of
        Inl e \<Rightarrow> Inl e
      | Inr em \<Rightarrow>
          (case bind_parameter password of
             Inl e \<Rightarrow> Inl e
           | Inr pw \<Rightarrow>
               (case bind_parameter nm of
                  Inl e \<Rightarrow> Inl e
                | Inr n \<Rightarrow>
                    if em \<noteq> None \<and> em \<in> set (map users_email (users db))
                    then Inl (SqliteError ''UNIQUE constraint failed: users.email'')
                    else
                      let rowid = next_rowid (seq_users db) (map users_id (users db))
                      in Inr (rowid,
                           db\<lparr>users := users db @
                                [\<lparr>users_id = rowid, users_email = em, users_password = pw,
                                  users_name = n\<rparr>],
                              seq_users := rowid\<rparr>))))"

text \<open>\<^verbatim>\<open>SELECT id, email, name FROM users WHERE id = ?\<close> with \<^verbatim>\<open>.get\<close>: the row or nothing.\<close>

record user_view =
  view_id :: int
  view_email :: "string option"
  view_name :: "string option"

definition select_user :: "int \<Rightarrow> database \<Rightarrow> user_view option" where
  "select_user rowid db =
     map_option (\<lambda>r. \<lparr>view_id = users_id r, view_email = users_email r, view_name = users_name r\<rparr>)
       (find (\<lambda>r. users_id r = rowid) (users db))"

record register_request =
  body_email :: "string field"
  body_password :: "string field"
  body_name :: "string field"

text \<open>
  The three answers of the handler: \<^verbatim>\<open>{ success: true, user }\<close>; status 400 with
  "Email already exists"; status 500 with "Server error".
\<close>

datatype register_response = RegisterSuccess "user_view option" | EmailAlreadyExists | ServerError

definition post_register :: "register_request \<Rightarrow> database \<Rightarrow> database \<times> register_response" where
  "post_register body db =
     (case insert_user (body_email body) (body_password body) (body_name body) db of
        Inr (rowid, db1) \<Rightarrow> (db1, RegisterSuccess (select_user rowid db1))
      | Inl err \<Rightarrow>
          if includes' (message err) ''UNIQUE constraint failed''
          then (db, EmailAlreadyExists)
          else (db, ServerError))"

section \<open>Sample data\<close>

text \<open>The cart line that \<^verbatim>\<open>addToCart\<close> stores for a product, with a given quantity.\<close>

definition line :: "Product \<Rightarrow> int \<Rightarrow> CartItem" where
  "line p q = \<lparr>id' = id' p, name = name p, category = category p, price = price p,
     image' = image' p, stock = stock p, description = description p, quantity = q\<rparr>"

definition shopper :: UserData where
  "shopper = \<lparr>uid = 7, uemail = ''asha@example.com'', uname = ''Asha''\<rparr>"

definition start_world :: checkout_world where
  "start_world = \<lparr>cart = [line milk 2, line bread 1], location = ''/checkout'',
     isPlacingOrder = False, sent = []\<rparr>"

text \<open>
  Two bodies of \<^verbatim>\<open>POST /api/orders\<close> with two items: in the first the second item is
  \<^verbatim>\<open>null\<close>, in the second its price is \<^verbatim>\<open>true\<close>.
\<close>

definition null_item_body :: orders_request where
  "null_item_body = \<lparr>body_userId = Val 7,
     body_items = Some [Some \<lparr>item_id = Val 1, item_quantity = Val 2, item_price = Val 33\<rparr>,
                        None],
     body_total = Val 113\<rparr>"

definition boolean_price_body :: orders_request where
  "boolean_price_body = \<lparr>body_userId = Val 7,
     body_items = Some [Some \<lparr>item_id = Val 1, item_quantity = Val 2, item_price = Val 33\<rparr>,
                        Some \<lparr>item_id = Val 2, item_quantity = Val 1, item_price = Bool True\<rparr>],
     body_total = Val 113\<rparr>"

text \<open>
  The double nearest to one tenth, the value of the literal \<^verbatim>\<open>0.1\<close>; no product of the
  catalogue has such a price.
\<close>

definition tenth :: real where
  "tenth = 3602879701896397 / 36028797018963968"

text \<open>A session of six clicks.\<close>

definition session :: "cart_op list" where
  "session = [AddLine milk, AddLine milk, AddLine bread, RemoveLine 2, RemoveLine 1, RemoveLine 5]"


section \<open>Auxiliary facts\<close>

lemmas sample_defs = milk_def bread_def line_def


subsection \<open>Looking up a line by product id\<close>

lemma find_id_None: "find (\<lambda>item. id' item = x) c = None \<longleftrightarrow> x \<notin> id' ` set c"
  by (auto simp: find_None_iff)

lemma find_id_Some: "find (\<lambda>item. id' item = x) c = Some e \<Longrightarrow> e \<in> set c \<and> id' e = x"
  by (auto simp: find_Some_iff)

lemma id_comp_upd:
  "id' \<circ> (\<lambda>item. if P item then item\<lparr>quantity := f item\<rparr> else item) = id'"
  by (auto simp: fun_eq_iff)

lemma same_id_same_line:
  "distinct (map id' c) \<Longrightarrow> a \<in> set c \<Longrightarrow> b \<in> set c \<Longrightarrow> id' a = id' b \<Longrightarrow> a = b"
  by (meson distinct_map inj_onD)

lemma find_map_upd:
  "find (\<lambda>item. id' item = x)
     (map (\<lambda>item. if id' item = x then item\<lparr>quantity := f item\<rparr> else item) c)
   = map_option (\<lambda>item. item\<lparr>quantity := f item\<rparr>) (find (\<lambda>item. id' item = x) c)"
  by (induction c) auto

lemma find_fresh_append: "\<forall>r \<in> set rs. \<not> P r \<Longrightarrow> P r' \<Longrightarrow> find P (rs @ [r']) = Some r'"
  by (induction rs) auto

lemma dec_comp_inc:
  "(\<lambda>item. if id' item = x then item\<lparr>quantity := quantity item - 1\<rparr> else item) \<circ>
   (\<lambda>item. if id' item = x then item\<lparr>quantity := quantity item + 1\<rparr> else item)
   = (\<lambda>item::CartItem. item)"
  by (auto simp: fun_eq_iff)

subsection \<open>The cart invariant is preserved\<close>

lemma addToCart_inv:
  assumes "cart_inv c"
  shows "cart_inv (addToCart p c)"
proof (cases "find (\<lambda>item. id' item = id' p) c")
  case None
  then have "id' p \<notin> id' ` set c" by (simp add: find_id_None)
  with assms None show ?thesis
    by (auto simp: cart_inv_def addToCart_def)
next
  case (Some e)
  with assms show ?thesis
    by (auto simp: cart_inv_def addToCart_def id_comp_upd)
qed

lemma removeFromCart_inv:
  assumes "cart_inv c"
  shows "cart_inv (removeFromCart x c)"
proof (cases "find (\<lambda>item. id' item = x) c")
  case None
  with assms show ?thesis
    by (auto simp: cart_inv_def removeFromCart_def distinct_map_filter)
next
  case (Some e)
  then have e: "e \<in> set c" "id' e = x" by (auto dest: find_id_Some)
  show ?thesis
  proof (cases "quantity e > 1")
    case True
    have "quantity l > 1" if "l \<in> set c" "id' l = x" for l
      using same_id_same_line [of c l e] assms e that True by (simp add: cart_inv_def)
    with assms Some True show ?thesis
      by (auto simp: cart_inv_def removeFromCart_def id_comp_upd)
  next
    case False
    with assms Some show ?thesis
      by (auto simp: cart_inv_def removeFromCart_def distinct_map_filter)
  qed
qed

lemma foldl_apply_op_inv: "cart_inv c \<Longrightarrow> cart_inv (foldl apply_op c ops)"
proof (induction ops arbitrary: c)
  case Nil
  then show ?case by simp
next
  case (Cons a ops)
  then show ?case by (cases a) (auto intro: addToCart_inv removeFromCart_inv)
qed

lemma run_ops_inv: "cart_inv (run_ops ops)"
  unfolding run_ops_def by (rule foldl_apply_op_inv) (simp add: cart_inv_def)

lemma run_session: "run_ops session = [line milk 1]"
  by (simp add: run_ops_def session_def addToCart_def removeFromCart_def sample_defs)


subsection \<open>Doubles that are integers\<close>

text \<open>
  Every integer of magnitude at most \<open>2 ^ 53\<close> is a double, so rounding leaves it as it is.
\<close>

lemma round_half_even_of_int: "round_half_even (of_int k) = k"
  by (simp add: round_half_even_def)

lemma exponent_cases: "exponent x = - 1022 \<or> 2 powi exponent x \<le> \<bar>x\<bar>"
  by (auto simp: exponent_def find_Some_iff split: option.splits)

lemma exponent_le_53:
  assumes "\<bar>x\<bar> \<le> 2 ^ 53"
  shows "exponent x \<le> 53"
proof (rule ccontr)
  assume "\<not> exponent x \<le> 53"
  then have big: "54 \<le> exponent x" by simp
  with exponent_cases [of x] have "(2::real) powi exponent x \<le> \<bar>x\<bar>" by auto
  moreover have "(2::real) powi 54 \<le> 2 powi exponent x"
    using big by (intro power_int_increasing) simp_all
  ultimately have "(2::real) powi 54 \<le> 2 ^ 53" using assms by linarith
  then show False by simp
qed

lemma to_double_safe_int:
  assumes "\<bar>of_int n :: real\<bar> \<le> 2 ^ 53"
  shows "to_double (of_int n) = of_int n"
proof -
  let ?e = "exponent (of_int n)"
  have le: "?e \<le> 53" using assms by (rule exponent_le_53)
  have "\<exists>k. (of_int n :: real) / 2 powi (?e - 52) = of_int k"
  proof (cases "?e \<le> 52")
    case True
    then have "(2::real) powi (?e - 52) = 1 / 2 ^ nat (52 - ?e)"
      by (simp add: power_int_def field_simps)
    then have "(of_int n :: real) / 2 powi (?e - 52) = of_int (n * 2 ^ nat (52 - ?e))"
      by simp
    then show ?thesis by blast
  next
    case False
    with le have e: "?e = 53" by simp
    with exponent_cases [of "of_int n"] have "(2::real) ^ 53 \<le> \<bar>of_int n\<bar>" by simp
    with assms have "\<bar>of_int n :: real\<bar> = 2 ^ 53" by simp
    then have "\<bar>n\<bar> = 2 ^ 53" by (metis of_int_abs of_int_eq_numeral_power_cancel_iff)
    then have "n = 9007199254740992 \<or> n = - 9007199254740992" by (simp add: abs_if split: if_splits)
    then have "n = 2 * (n div 2)" by presburger
    then have "(of_int n :: real) = 2 * of_int (n div 2)"
      by (metis of_int_mult of_int_numeral)
    with e have "(of_int n :: real) / 2 powi (?e - 52) = of_int (n div 2)"
      by simp
    then show ?thesis by blast
  qed
  then obtain k where k: "(of_int n :: real) / 2 powi (?e - 52) = of_int k" by blast
  then have "to_double (of_int n) = of_int k * 2 powi (?e - 52)"
    by (simp add: to_double_def round_half_even_of_int)
  also have "\<dots> = of_int n" using k by (simp add: field_simps)
  finally show ?thesis .
qed

lemma to_double_safe:
  assumes "x \<in> \<int>" and "0 \<le> x" and "x \<le> 2 ^ 53"
  shows "to_double x = x"
  using assms to_double_safe_int by (auto elim!: Ints_cases)

lemma to_double_numeral:
  "numeral k \<le> (9007199254740992::real) \<Longrightarrow> to_double (numeral k) = numeral k"
  using to_double_safe [of "numeral k"] by simp

lemma to_double_0: "to_double 0 = 0"
  using to_double_safe [of 0] by simp

subsection \<open>Totals without rounding\<close>






text \<open>
  The walk-through of the specification: two additions of the product with id 1 and price 33,
  then two removals.
\<close>

lemma scenario_add_add_remove_remove:
  "cartTotal (run_ops [AddLine milk]) = 33 \<and> cartCount (run_ops [AddLine milk]) = 1 \<and>
   cartTotal (run_ops [AddLine milk, AddLine milk]) = 66 \<and>
   cartCount (run_ops [AddLine milk, AddLine milk]) = 2 \<and>
   cartTotal (run_ops [AddLine milk, AddLine milk, RemoveLine 1]) = 33 \<and>
   cartCount (run_ops [AddLine milk, AddLine milk, RemoveLine 1]) = 1 \<and>
   run_ops [AddLine milk, AddLine milk, RemoveLine 1, RemoveLine 1] = []"
  by (simp add: run_ops_def addToCart_def removeFromCart_def cartTotal_def cartCount_def milk_def
      to_double_numeral to_double_0)

subsection \<open>Rounding of a fractional price\<close>

text \<open>
  With a price that has a fractional part the fold rounds. Three units at the price
  \<^verbatim>\<open>0.1\<close> total \<^verbatim>\<open>0.30000000000000004\<close>, which is not three times the price: the exact
  product lies halfway between two doubles and goes to the even one.
\<close>

lemma find_first:
  assumes "i < length xs" and "P (xs ! i)" and "\<forall>j < i. \<not> P (xs ! j)"
  shows "find P xs = Some (xs ! i)"
  using assms by (auto simp: find_Some_iff)

lemma rev_upto_nth: "i < nat (b - a + 1) \<Longrightarrow> rev [a..b] ! i = b - int i"
  by (simp add: rev_nth)

lemma exponents_nth: "i < 2046 \<Longrightarrow> exponents ! i = 1023 - int i"
  unfolding exponents_def by (subst rev_upto_nth) simp_all

lemma exponents_length: "length exponents = 2046"
  unfolding exponents_def by (subst length_rev, subst length_upto) simp

lemma exponent_eq:
  assumes "2 powi e \<le> \<bar>x\<bar>" and "\<bar>x\<bar> < 2 powi (e + 1)" and "- 1022 \<le> e" and "e \<le> 1023"
  shows "exponent x = e"
proof -
  let ?i = "nat (1023 - e)"
  have i: "?i < 2046" using assms(3,4) by simp
  then have at: "exponents ! ?i = e" using assms(4) by (simp add: exponents_nth)
  have "\<not> 2 powi (exponents ! j) \<le> \<bar>x\<bar>" if "j < ?i" for j
  proof -
    from that i have "exponents ! j = 1023 - int j" by (simp add: exponents_nth)
    with that have "e + 1 \<le> exponents ! j" by simp
    then have "(2::real) powi (e + 1) \<le> 2 powi (exponents ! j)"
      by (intro power_int_increasing) simp_all
    with assms(2) show ?thesis by simp
  qed
  with i at assms(1) have "find (\<lambda>e. 2 powi e \<le> \<bar>x\<bar>) exponents = Some e"
    using find_first [of ?i exponents "\<lambda>e. 2 powi e \<le> \<bar>x\<bar>"] by (simp add: exponents_length)
  then show ?thesis by (simp add: exponent_def)
qed

lemma round_half_even_up:
  assumes "of_int k + 1 / 2 < m" and "m < of_int k + 1"
  shows "round_half_even m = k + 1"
proof -
  have "\<lfloor>m\<rfloor> = k" using assms by (intro floor_unique) simp_all
  with assms show ?thesis by (simp add: round_half_even_def Let_def)
qed

lemma round_half_even_tie:
  assumes "m = of_int k + 1 / 2"
  shows "round_half_even m = (if even k then k else k + 1)"
proof -
  have "\<lfloor>m\<rfloor> = k" using assms by (intro floor_unique) simp_all
  with assms show ?thesis by (simp add: round_half_even_def Let_def)
qed

lemma tenth_is_double: "to_double (1 / 10) = tenth"
proof -
  have e: "exponent (1 / 10) = - 4"
    by (rule exponent_eq) (simp_all add: power_int_minus)
  have "round_half_even (72057594037927936 / 10) = 7205759403792794"
    using round_half_even_up [of 7205759403792793 "72057594037927936 / 10"] by simp
  then show ?thesis
    by (simp add: to_double_def e tenth_def power_int_minus)
qed

lemma three_tenths_rounded: "to_double (tenth * 3) = 1351079888211149 / 4503599627370496"
proof -
  have e: "exponent (tenth * 3) = - 2"
    by (rule exponent_eq) (simp_all add: power_int_minus tenth_def)
  have "round_half_even (tenth * 3 * 18014398509481984) = 5404319552844596"
    using round_half_even_tie [of "tenth * 3 * 18014398509481984" 5404319552844595]
    by (simp add: tenth_def)
  then show ?thesis
    by (simp add: to_double_def e power_int_minus)
qed

lemma three_tenths_is_double: "to_double (1351079888211149 / 4503599627370496) = 1351079888211149 / 4503599627370496"
proof -
  have e: "exponent (1351079888211149 / 4503599627370496) = - 2"
    by (rule exponent_eq) (simp_all add: power_int_minus)
  have "round_half_even (real_of_int 5404319552844596) = 5404319552844596"
    by (rule round_half_even_of_int)
  then show ?thesis
    by (simp add: to_double_def e power_int_minus)
qed

lemma fractional_total: "cartTotal [(line milk 3)\<lparr>price := tenth\<rparr>] = 1351079888211149 / 4503599627370496"
  by (simp add: cartTotal_def line_def milk_def three_tenths_rounded three_tenths_is_double)


lemma fractional_total_is_not_the_sum:
  "cartTotal [(line milk 3)\<lparr>price := tenth\<rparr>] \<noteq> tenth * 3"
  unfolding fractional_total by (simp add: tenth_def)

subsection \<open>Carts built from the catalogue\<close>












subsection \<open>Substring search\<close>



subsection \<open>Lower-casing and letter case\<close>







lemma lower_latin1:
  "toLowerCase [CHR 0xC9, CHR 0xD7, CHR 0xDE, CHR 0xDF, CHR 0xFF] =
     [CHR 0xE9, CHR 0xD7, CHR 0xFE, CHR 0xDF, CHR 0xFF]"
  by (simp add: toLowerCase_def lower_char_def is_upper_def)

subsection \<open>Row ids and the users table\<close>

lemma foldl_max_ge_init: "(a::int) \<le> foldl max a ids"
  by (induction ids arbitrary: a) (auto intro: order_trans [OF max.cobounded1])

lemma foldl_max_ge_elem: "x \<in> set ids \<Longrightarrow> (x::int) \<le> foldl max a ids"
proof (induction ids arbitrary: a)
  case Nil
  then show ?case by simp
next
  case (Cons y ys)
  show ?case
  proof (cases "x = y")
    case True
    have "y \<le> max a y" by simp
    also have "\<dots> \<le> foldl max (max a y) ys" by (rule foldl_max_ge_init)
    finally show ?thesis using True by simp
  next
    case False
    with Cons show ?thesis by simp
  qed
qed

lemma next_rowid_fresh: "next_rowid s ids \<notin> set ids"
  using foldl_max_ge_elem [of "next_rowid s ids" ids s] by (auto simp: next_rowid_def)

lemma insert_user_fresh:
  assumes "Some e \<notin> users_email ` set (users db)"
  shows "insert_user (Val e) (Val pw) (Val n) db =
           Inr (next_rowid (seq_users db) (map users_id (users db)),
                db\<lparr>users := users db @
                     [\<lparr>users_id = next_rowid (seq_users db) (map users_id (users db)),
                       users_email = Some e, users_password = Some pw, users_name = Some n\<rparr>],
                   seq_users := next_rowid (seq_users db) (map users_id (users db))\<rparr>)"
  using assms by (simp add: insert_user_def Let_def)

lemma insert_user_taken:
  assumes "Some e \<in> users_email ` set (users db)"
  shows "insert_user (Val e) (Val pw) (Val n) db =
           Inl (SqliteError ''UNIQUE constraint failed: users.email'')"
  using assms by (simp add: insert_user_def)

lemma post_register_fresh:
  assumes "Some e \<notin> users_email ` set (users db)"
  shows "post_register \<lparr>body_email = Val e, body_password = Val pw, body_name = Val n\<rparr> db =
          (db\<lparr>users := users db @
                     [\<lparr>users_id = next_rowid (seq_users db) (map users_id (users db)),
                       users_email = Some e, users_password = Some pw, users_name = Some n\<rparr>],
                   seq_users := next_rowid (seq_users db) (map users_id (users db))\<rparr>,
           RegisterSuccess (Some \<lparr>view_id = next_rowid (seq_users db) (map users_id (users db)),
                                  view_email = Some e, view_name = Some n\<rparr>))"
proof -
  let ?i = "next_rowid (seq_users db) (map users_id (users db))"
  have "\<forall>r \<in> set (users db). \<not> users_id r = ?i"
    using next_rowid_fresh [of "seq_users db" "map users_id (users db)"] by force
  then have "find (\<lambda>r. users_id r = ?i)
               (users db @ [\<lparr>users_id = ?i, users_email = Some e, users_password = Some pw,
                              users_name = Some n\<rparr>])
             = Some \<lparr>users_id = ?i, users_email = Some e, users_password = Some pw,
                      users_name = Some n\<rparr>"
    by (intro find_fresh_append) simp_all
  then show ?thesis
    by (simp add: post_register_def insert_user_fresh [OF assms] select_user_def)
qed

lemma post_register_taken:
  assumes "Some e \<in> users_email ` set (users db)"
  shows "post_register \<lparr>body_email = Val e, body_password = Val pw, body_name = Val n\<rparr> db =
          (db, EmailAlreadyExists)"
  by (simp add: post_register_def insert_user_taken [OF assms])

subsection \<open>Orders whose statements all succeed\<close>

text \<open>
  When the user id, the total and every property of every item can be bound, the handler
  stores the header with status "pending" and one row per item, each pointing at the header.
\<close>

lemma bind_parameter_not_bool: "\<not> is_bool f \<Longrightarrow> \<exists>v. bind_parameter f = Inr v"
  by (cases f) simp_all

lemma insert_item_bindable:
  assumes "bindable item"
  shows "\<exists>r. insert_item orderId item db =
               Inr (db\<lparr>order_items := order_items db @ [r],
                       seq_order_items := order_items_id r\<rparr>) \<and>
             order_items_order_id r = Some orderId"
proof -
  from assms obtain p q pr where
    "bind_parameter (item_id item) = Inr p" "bind_parameter (item_quantity item) = Inr q"
    "bind_parameter (item_price item) = Inr pr"
    unfolding bindable_def by (meson bind_parameter_not_bool)
  then show ?thesis
    by (intro exI [of _ "\<lparr>order_items_id =
            next_rowid (seq_order_items db) (map order_items_id (order_items db)),
          order_items_order_id = Some orderId, order_items_product_id = p,
          order_items_quantity = q, order_items_price = pr\<rparr>"])
       (simp add: insert_item_def Let_def)
qed

lemma forEach_insertItem_bindable:
  assumes "\<forall>item \<in> set its. bindable item"
  shows "\<exists>rs. fst (forEach_insertItem orderId (map Some its) db) \<lparr>seq_order_items := 0\<rparr> =
                 db\<lparr>order_items := order_items db @ rs, seq_order_items := 0\<rparr> \<and>
              snd (forEach_insertItem orderId (map Some its) db) = None \<and>
              length rs = length its \<and>
              (\<forall>r \<in> set rs. order_items_order_id r = Some orderId)"
  using assms
proof (induction its arbitrary: db)
  case Nil
  then show ?case by simp
next
  case (Cons item its)
  then have "bindable item" by simp
  then obtain r where r: "insert_item orderId item db =
      Inr (db\<lparr>order_items := order_items db @ [r], seq_order_items := order_items_id r\<rparr>)"
      "order_items_order_id r = Some orderId"
    using insert_item_bindable by blast
  let ?db' = "db\<lparr>order_items := order_items db @ [r], seq_order_items := order_items_id r\<rparr>"
  from Cons obtain rs where rs:
    "fst (forEach_insertItem orderId (map Some its) ?db') \<lparr>seq_order_items := 0\<rparr> =
       ?db'\<lparr>order_items := order_items ?db' @ rs, seq_order_items := 0\<rparr>"
    "snd (forEach_insertItem orderId (map Some its) ?db') = None"
    "length rs = length its" "\<forall>r \<in> set rs. order_items_order_id r = Some orderId"
    by (metis list.set_intros(2))
  show ?case
    apply (rule exI [of _ "r # rs"])
    using r rs by simp
qed

lemma post_orders_whole_order:
  assumes "\<not> is_bool (or_1 (body_userId body))" and "\<not> is_bool (body_total body)"
    and "body_items body = Some (map Some its)"
    and "\<forall>item \<in> set its. bindable item"
  shows "\<exists>h rs. snd (post_orders now body db) = OrderCreated (orders_id h) \<and>
           orders (fst (post_orders now body db)) = orders db @ [h] \<and>
           orders_status h = Some ''pending'' \<and>
           order_items (fst (post_orders now body db)) = order_items db @ rs \<and>
           length rs = length its \<and>
           (\<forall>r \<in> set rs. order_items_order_id r = Some (orders_id h))"
proof -
  from assms(1) obtain u where u: "bind_parameter (or_1 (body_userId body)) = Inr u"
    using bind_parameter_not_bool by blast
  from assms(2) obtain t where t: "bind_parameter (body_total body) = Inr t"
    using bind_parameter_not_bool by blast
  let ?i = "next_rowid (seq_orders db) (map orders_id (orders db))"
  let ?h = "\<lparr>orders_id = ?i, orders_user_id = u, orders_total = t,
             orders_status = Some ''pending'', orders_created_at = now\<rparr>"
  let ?db1 = "db\<lparr>orders := orders db @ [?h], seq_orders := ?i\<rparr>"
  have ins: "insert_order now (or_1 (body_userId body)) (body_total body) db = Inr (?i, ?db1)"
    by (simp add: insert_order_def u t Let_def)
  obtain rs where rs:
    "fst (forEach_insertItem ?i (map Some its) ?db1) \<lparr>seq_order_items := 0\<rparr> =
       ?db1\<lparr>order_items := order_items ?db1 @ rs, seq_order_items := 0\<rparr>"
    "snd (forEach_insertItem ?i (map Some its) ?db1) = None"
    "length rs = length its" "\<forall>r \<in> set rs. order_items_order_id r = Some ?i"
    using forEach_insertItem_bindable [OF assms(4)] by blast
  obtain db2 where db2: "forEach_insertItem ?i (map Some its) ?db1 = (db2, None)"
    using rs(2) by (cases "forEach_insertItem ?i (map Some its) ?db1") simp
  with rs(1) have eq: "db2\<lparr>seq_order_items := 0\<rparr> =
       ?db1\<lparr>order_items := order_items ?db1 @ rs, seq_order_items := 0\<rparr>" by simp
  have "orders db2 = orders (db2\<lparr>seq_order_items := 0\<rparr>)" by simp
  also have "\<dots> = orders db @ [?h]" unfolding eq by simp
  finally have o: "orders db2 = orders db @ [?h]" .
  have "order_items db2 = order_items (db2\<lparr>seq_order_items := 0\<rparr>)" by simp
  also have "\<dots> = order_items db @ rs" unfolding eq by simp
  finally have oi: "order_items db2 = order_items db @ rs" .
  have "post_orders now body db = (db2, OrderCreated ?i)"
    by (simp add: post_orders_def ins assms(3) db2)
  with o oi rs(3,4) show ?thesis
    by (intro exI [of _ ?h] exI [of _ rs]) simp
qed

section \<open>The cart\<close>

text \<open>
  Claim C1. Whatever sequence of \<^verbatim>\<open>addToCart\<close> and \<^verbatim>\<open>removeFromCart\<close> calls is applied to the
  empty cart, the resulting cart holds at most one line per product id, and every line has a
  quantity of at least 1: a line whose quantity would drop to 0 is filtered out.
\<close>

theorem cart_lines_unique_and_positive:
  "distinct (map id' (run_ops ops)) \<and> (\<forall>l \<in> set (run_ops ops). 1 \<le> quantity l)"
  using run_ops_inv [of ops] by (simp add: cart_inv_def)

theorem cart_lines_unique_and_positive_witness:
  "run_ops session = [line milk 1] \<and>
   distinct (map id' (run_ops session)) \<and> list_all (\<lambda>l. 1 \<le> quantity l) (run_ops session)"
  using cart_lines_unique_and_positive [of session] run_session by simp



text \<open>
  Claim C7. \<^verbatim>\<open>addToCart(p)\<close> followed by \<^verbatim>\<open>removeFromCart(p.id)\<close> gives back the cart it
  started from, whether or not the cart had a line for \<^verbatim>\<open>p\<close>. This holds in every cart whose
  lines all have a quantity of at least 1, and so in every cart that the two operations can
  build from the empty one.
\<close>

theorem add_then_remove_restores:
  "((\<forall>l \<in> set c. 1 \<le> quantity l) \<longrightarrow> removeFromCart (id' p) (addToCart p c) = c) \<and>
   removeFromCart (id' p) (addToCart p (run_ops ops)) = run_ops ops"
proof -
  have restore: "removeFromCart (id' p) (addToCart p d) = d"
    if positive: "\<forall>l \<in> set d. 1 \<le> quantity l" for d
  proof (cases "find (\<lambda>item. id' item = id' p) d")
    case None
    let ?new = "\<lparr>id' = id' p, name = name p, category = category p, price = price p,
                  image' = image' p, stock = stock p, description = description p,
                  quantity = 1\<rparr>"
    from None have fresh: "\<forall>l \<in> set d. \<not> id' l = id' p"
      by (simp add: find_None_iff)
    then have found: "find (\<lambda>item. id' item = id' p) (d @ [?new]) = Some ?new"
      by (intro find_fresh_append) simp_all
    from fresh have kept: "filter (\<lambda>item. id' item \<noteq> id' p) d = d"
      by (simp add: filter_id_conv)
    from None have "addToCart p d = d @ [?new]"
      by (simp add: addToCart_def)
    with found kept show ?thesis
      by (simp add: removeFromCart_def)
  next
    case (Some e)
    then have "e \<in> set d" by (auto dest: find_id_Some)
    with positive have "1 \<le> quantity e" by blast
    with Some show ?thesis
      by (simp add: addToCart_def removeFromCart_def find_map_upd dec_comp_inc)
  qed
  have "\<forall>l \<in> set (run_ops ops). 1 \<le> quantity l"
    using run_ops_inv [of ops] by (simp add: cart_inv_def)
  then have "removeFromCart (id' p) (addToCart p (run_ops ops)) = run_ops ops"
    by (rule restore)
  with restore [of c] show ?thesis by blast
qed

theorem add_then_remove_restores_witness:
  "list_all (\<lambda>l. 1 \<le> quantity l) [line milk 2] \<and>
   removeFromCart (id' milk) (addToCart milk [line milk 2]) = [line milk 2] \<and>
   removeFromCart (id' bread) (addToCart bread [line milk 2]) = [line milk 2] \<and>
   addToCart milk [line milk 2] = [line milk 3] \<and>
   addToCart bread [line milk 2] = [line milk 2, line bread 1]"
  using add_then_remove_restores [of "[line milk 2]" milk]
    add_then_remove_restores [of "[line milk 2]" bread]
  by (simp add: addToCart_def sample_defs)

text \<open>
  Claim C8. \<^verbatim>\<open>removeFromCart(x)\<close> on a cart without a line for the product id \<^verbatim>\<open>x\<close> returns
  the cart as it was. The function has no path that throws, and since the result is the
  argument, no line is added, with a negative quantity or otherwise.
\<close>

theorem remove_absent_is_noop:
  assumes "x \<notin> id' ` set c"
  shows "removeFromCart x c = c"
proof -
  from assms have "find (\<lambda>item. id' item = x) c = None"
    by (simp add: find_id_None)
  moreover from assms have "filter (\<lambda>item. id' item \<noteq> x) c = c"
    by (force simp: filter_id_conv)
  ultimately show ?thesis by (simp add: removeFromCart_def)
qed

theorem remove_absent_is_noop_witness:
  "5 \<notin> id' ` set [line milk 2, line bread 1] \<and>
   removeFromCart 5 [line milk 2, line bread 1] = [line milk 2, line bread 1]"
  using remove_absent_is_noop [of 5 "[line milk 2, line bread 1]"] by (simp add: sample_defs)

text \<open>
  Claim C10. When the cart already has a line for the id of the product passed to
  \<^verbatim>\<open>addToCart\<close>, the cart keeps its length and order; a line with another id is untouched;
  a line with that id changes in its quantity only, which grows by 1. In particular the price
  stored in the line stays, whatever price, name or other field the argument carries.
\<close>

theorem addToCart_existing_frame:
  assumes "id' p \<in> id' ` set c"
  shows "length (addToCart p c) = length c \<and>
         (\<forall>i < length c.
            price (addToCart p c ! i) = price (c ! i) \<and>
            (if id' (c ! i) = id' p
             then addToCart p c ! i = (c ! i)\<lparr>quantity := quantity (c ! i) + 1\<rparr>
             else addToCart p c ! i = c ! i))"
proof -
  from assms obtain e where "find (\<lambda>item. id' item = id' p) c = Some e"
    by (cases "find (\<lambda>item. id' item = id' p) c") (auto simp: find_id_None)
  then have "addToCart p c =
      map (\<lambda>item. if id' item = id' p then item\<lparr>quantity := quantity item + 1\<rparr> else item) c"
    by (simp add: addToCart_def)
  then show ?thesis by simp
qed

theorem addToCart_existing_frame_witness:
  "id' (milk\<lparr>price := 40, name := ''Milk, new label''\<rparr>) \<in> id' ` set [line milk 2, line bread 1] \<and>
   addToCart (milk\<lparr>price := 40, name := ''Milk, new label''\<rparr>) [line milk 2, line bread 1] =
     [line milk 3, line bread 1] \<and>
   price (line milk 3) = 33"
  using addToCart_existing_frame
    [of "milk\<lparr>price := 40, name := ''Milk, new label''\<rparr>" "[line milk 2, line bread 1]"]
  by (simp add: addToCart_def sample_defs)

section \<open>Product discovery\<close>



section \<open>Checkout\<close>

text \<open>
  Claim C3. When a signed-in user places an order, exactly one request is issued; it carries
  the lines of the cart and the grand total \<^verbatim>\<open>cartTotal + 2\<close>, the items total plus the fixed
  handling fee of 2, with nothing added for delivery. This holds for every cart; the page
  offers the button only when the cart is not empty.
\<close>

theorem checkout_snapshot_total:
  "sent (handlePlaceOrder fetch (Some u) w) =
     sent w @ [\<lparr>userId = uid u, items = cart w, total' = cartTotal (cart w) + 2\<rparr>]"
  by (simp add: handlePlaceOrder_def onOrderSuccess_def Let_def split: fetch_result.split)

theorem checkout_snapshot_total_witness:
  "sent (handlePlaceOrder (\<lambda>b. Response 200) (Some shopper) start_world) =
     [\<lparr>userId = 7, items = [line milk 2, line bread 1], total' = 113\<rparr>] \<and>
   cartTotal (cart start_world) = 111 \<and> cart start_world \<noteq> []"
  using checkout_snapshot_total [of "\<lambda>b. Response 200" shopper start_world]
  by (simp add: start_world_def shopper_def cartTotal_def sample_defs
      to_double_numeral to_double_0)

text \<open>
  Claim C4. After \<^verbatim>\<open>handlePlaceOrder\<close> the cart is empty when the request was answered with a
  status from 200 to 299, the answer of the order service to a created order. In every other
  case the cart is the one before the call: when \<^verbatim>\<open>fetch\<close> rejects, when the status is
  outside 200 to 299, and when no user is signed in, in which case no request is made.
\<close>

theorem cart_cleared_iff_confirmed:
  "cart (handlePlaceOrder fetch user w) =
     (case user of
        None \<Rightarrow> cart w
      | Some u \<Rightarrow>
          (case fetch \<lparr>userId = uid u, items = cart w, total' = cartTotal (cart w) + 2\<rparr> of
             Rejected \<Rightarrow> cart w
           | Response status \<Rightarrow> if 200 \<le> status \<and> status \<le> 299 then [] else cart w))"
  by (simp add: handlePlaceOrder_def onOrderSuccess_def ok_def Let_def
      split: option.split fetch_result.split)

theorem cart_cleared_iff_confirmed_witness:
  "cart (handlePlaceOrder (\<lambda>b. Response 200) (Some shopper) start_world) = [] \<and>
   cart (handlePlaceOrder (\<lambda>b. Response 500) (Some shopper) start_world) = cart start_world \<and>
   cart (handlePlaceOrder (\<lambda>b. Rejected) (Some shopper) start_world) = cart start_world \<and>
   cart (handlePlaceOrder (\<lambda>b. Response 200) None start_world) = cart start_world \<and>
   cart start_world \<noteq> []"
  using cart_cleared_iff_confirmed [of "\<lambda>b. Response 200" "Some shopper" start_world]
    cart_cleared_iff_confirmed [of "\<lambda>b. Response 500" "Some shopper" start_world]
    cart_cleared_iff_confirmed [of "\<lambda>b. Rejected" "Some shopper" start_world]
    cart_cleared_iff_confirmed [of "\<lambda>b. Response 200" None start_world]
  by (simp add: start_world_def)

section \<open>The order service\<close>

text \<open>
  Claim C5 asks that an order is stored whole or not at all. The handler of
  \<^verbatim>\<open>POST /api/orders\<close> inserts the header and then each line in a statement of its own, with
  no transaction around them and no \<^verbatim>\<open>catch\<close>. When the step for a line throws, the header
  and the lines before it stay in the database. For each of the two sample bodies, sent to an
  empty database, the request ends in an uncaught exception while the header and one of the
  two lines remain.
\<close>

theorem post_orders_partial_order:
  "post_orders now null_item_body empty_database =
     (\<lparr>users = [],
       orders = [\<lparr>orders_id = 1, orders_user_id = Some 7, orders_total = Some 113,
                  orders_status = Some ''pending'', orders_created_at = now\<rparr>],
       order_items = [\<lparr>order_items_id = 1, order_items_order_id = Some 1,
                       order_items_product_id = Some 1, order_items_quantity = Some 2,
                       order_items_price = Some 33\<rparr>],
       seq_users = 0, seq_orders = 1, seq_order_items = 1\<rparr>,
      Uncaught (TypeError ''Cannot read properties of null''))
   \<and> post_orders now boolean_price_body empty_database =
     (\<lparr>users = [],
       orders = [\<lparr>orders_id = 1, orders_user_id = Some 7, orders_total = Some 113,
                  orders_status = Some ''pending'', orders_created_at = now\<rparr>],
       order_items = [\<lparr>order_items_id = 1, order_items_order_id = Some 1,
                       order_items_product_id = Some 1, order_items_quantity = Some 2,
                       order_items_price = Some 33\<rparr>],
       seq_users = 0, seq_orders = 1, seq_order_items = 1\<rparr>,
      Uncaught (TypeError ''SQLite3 can only bind numbers, strings, bigints, buffers, and null''))"
  by (simp add: post_orders_def null_item_body_def boolean_price_body_def empty_database_def
      insert_order_def insert_item_def next_rowid_def Let_def)

text \<open>
  Claim C6. Registering an email that no row of \<^verbatim>\<open>users\<close> holds succeeds and answers with
  the new user; registering the same email again, with any password and name, is answered
  with "Email already exists" and leaves the database as the first call left it, so exactly
  one row holds that email.
\<close>

theorem register_same_email_twice:
  assumes "Some e \<notin> users_email ` set (users db)"
  shows "let first = post_register
                       \<lparr>body_email = Val e, body_password = Val pw1, body_name = Val n1\<rparr> db;
             second = post_register
                        \<lparr>body_email = Val e, body_password = Val pw2, body_name = Val n2\<rparr>
                        (fst first)
         in (\<exists>u. snd first = RegisterSuccess (Some u) \<and> view_email u = Some e) \<and>
            snd second = EmailAlreadyExists \<and>
            fst second = fst first \<and>
            length (filter (\<lambda>r. users_email r = Some e) (users (fst second))) = 1"
proof -
  let ?db1 = "fst (post_register
                     \<lparr>body_email = Val e, body_password = Val pw1, body_name = Val n1\<rparr> db)"
  have none: "filter (\<lambda>r. users_email r = Some e) (users db) = []"
    using assms by (force simp: filter_empty_conv)
  have taken: "Some e \<in> users_email ` set (users ?db1)"
    by (simp add: post_register_fresh [OF assms])
  show ?thesis
    unfolding Let_def post_register_taken [OF taken]
    by (simp add: post_register_fresh [OF assms] none)
qed

theorem register_same_email_twice_witness:
  "Some ''asha@example.com'' \<notin> users_email ` set (users empty_database) \<and>
   post_register
     \<lparr>body_email = Val ''asha@example.com'', body_password = Val ''pw'', body_name = Val ''Asha''\<rparr>
     empty_database =
     (\<lparr>users = [\<lparr>users_id = 1, users_email = Some ''asha@example.com'',
                  users_password = Some ''pw'', users_name = Some ''Asha''\<rparr>],
       orders = [], order_items = [], seq_users = 1, seq_orders = 0, seq_order_items = 0\<rparr>,
      RegisterSuccess
        (Some \<lparr>view_id = 1, view_email = Some ''asha@example.com'', view_name = Some ''Asha''\<rparr>)) \<and>
   snd (post_register
     \<lparr>body_email = Val ''asha@example.com'', body_password = Val ''other'', body_name = Val ''A''\<rparr>
     (fst (post_register
       \<lparr>body_email = Val ''asha@example.com'', body_password = Val ''pw'', body_name = Val ''Asha''\<rparr>
       empty_database))) = EmailAlreadyExists"
  using register_same_email_twice
    [of "''asha@example.com''" empty_database "''pw''" "''Asha''" "''other''" "''A''"]
  by (simp add: empty_database_def post_register_def insert_user_def select_user_def
      next_rowid_def Let_def)

end
